theory Spec2Isabelle
  imports Complex_Main "HOL-Library.Option_ord"
begin

section \<open>The Sparkify ETL job (\<^verbatim>\<open>etl.py\<close>)\<close>

text \<open>
  \<^verbatim>\<open>etl.py\<close> reads two JSON data sets with Spark, a song catalog (\<^verbatim>\<open>song_data\<close>) and a
  user activity log (\<^verbatim>\<open>log_data\<close>), and writes five Parquet tables: \<^verbatim>\<open>songs\<close>,
  \<^verbatim>\<open>artists\<close>, \<^verbatim>\<open>users\<close>, \<^verbatim>\<open>time\<close> and \<^verbatim>\<open>songplays\<close>.

  A data frame is a list of rows. The list order stands for whatever order the engine
  holds the rows in; no statement below depends on it except where the program sorts.
  A nullable column is an \<open>option\<close>: \<open>None\<close> is SQL \<^verbatim>\<open>NULL\<close>, which is also what
  \<^verbatim>\<open>spark.read.json\<close> yields for a key that a JSON object does not have (the column is
  in the inferred schema because other objects have the key). Double columns are
  modelled by \<open>real\<close>, that is with exact arithmetic. Python is Python 3, so \<^verbatim>\<open>/\<close>
  is true division.
\<close>

subsection \<open>Errors\<close>

text \<open>
  What can be raised while the job runs: Spark's \<^verbatim>\<open>AnalysisException\<close> for a column
  that cannot be resolved and for an output path that already exists, and the Python
  exceptions of the \<^verbatim>\<open>get_timestamp\<close> UDF.
\<close>

datatype error =
    CannotResolve string
  | PathAlreadyExists string
  | TypeError
  | ValueError

subsection \<open>The song catalog: \<^verbatim>\<open>process_song_data\<close>\<close>

text \<open>One row of \<^verbatim>\<open>spark.read.json(song_data)\<close>; the SQL query calls this frame \<^verbatim>\<open>s\<close>.\<close>

record song_data =
  s_song_id :: "string option"
  s_title :: "string option"
  s_artist_id :: "string option"
  s_artist_name :: "string option"
  s_artist_location :: "string option"
  s_artist_latitude :: "real option"
  s_artist_longitude :: "real option"
  s_year :: "int option"
  s_duration :: "real option"

text \<open>
  The two catalog tables are selected by column name, and the names of the artist
  columns are computed by the program, so their rows are kept as lists of named cells.
\<close>

datatype val = StringVal "string option" | DoubleVal "real option" | LongVal "int option"

type_synonym row = "(string \<times> val) list"

text \<open>Resolving a column name against the schema of the catalog frame.\<close>

definition song_data_column :: "string \<Rightarrow> (song_data \<Rightarrow> val) option" where
  "song_data_column c = map_of
     [(''song_id'', \<lambda>r. StringVal (s_song_id r)),
      (''title'', \<lambda>r. StringVal (s_title r)),
      (''artist_id'', \<lambda>r. StringVal (s_artist_id r)),
      (''artist_name'', \<lambda>r. StringVal (s_artist_name r)),
      (''artist_location'', \<lambda>r. StringVal (s_artist_location r)),
      (''artist_latitude'', \<lambda>r. DoubleVal (s_artist_latitude r)),
      (''artist_longitude'', \<lambda>r. DoubleVal (s_artist_longitude r)),
      (''year'', \<lambda>r. LongVal (s_year r)),
      (''duration'', \<lambda>r. DoubleVal (s_duration r))] c"

text \<open>
  A select expression is \<^verbatim>\<open>column\<close> or \<^verbatim>\<open>column as alias\<close>; \<open>split_as\<close> finds the first
  \<^verbatim>\<open>" as "\<close>.
\<close>

fun split_as :: "string \<Rightarrow> (string \<times> string) option" where
  "split_as [] = None"
| "split_as (c # cs) =
     (if take 4 (c # cs) = '' as '' then Some ([], drop 4 (c # cs))
      else map_option (\<lambda>(src, alias). (c # src, alias)) (split_as cs))"

definition parse_expr :: "string \<Rightarrow> string \<times> string" where
  "parse_expr e = (case split_as e of None \<Rightarrow> (e, e) | Some (src, alias) \<Rightarrow> (src, alias))"

text \<open>
  \<^verbatim>\<open>df.selectExpr(*exprs)\<close>: every expression is resolved against the schema first (an
  unknown column raises), then every row is projected. \<^verbatim>\<open>df.select(cols)\<close> with plain
  names is the same.
\<close>

fun resolve_exprs ::
  "(string \<Rightarrow> ('r \<Rightarrow> val) option) \<Rightarrow> string list \<Rightarrow> error + (string \<times> ('r \<Rightarrow> val)) list" where
  "resolve_exprs schema [] = Inr []"
| "resolve_exprs schema (e # es) =
     (case schema (fst (parse_expr e)) of
        None \<Rightarrow> Inl (CannotResolve (fst (parse_expr e)))
      | Some f \<Rightarrow>
          (case resolve_exprs schema es of
             Inl err \<Rightarrow> Inl err
           | Inr cols \<Rightarrow> Inr ((snd (parse_expr e), f) # cols)))"

definition selectExpr ::
  "(string \<Rightarrow> ('r \<Rightarrow> val) option) \<Rightarrow> string list \<Rightarrow> 'r list \<Rightarrow> error + row list" where
  "selectExpr schema exprs df =
     (case resolve_exprs schema exprs of
        Inl err \<Rightarrow> Inl err
      | Inr cols \<Rightarrow> Inr (map (\<lambda>r. map (\<lambda>(name, f). (name, f r)) cols) df))"

text \<open>Python's \<^verbatim>\<open>s.replace(old, new)\<close>: all non-overlapping occurrences, from the left.\<close>

fun replace :: "string \<Rightarrow> string \<Rightarrow> string \<Rightarrow> string" where
  "replace [] old new = (if old = [] then new else [])"
| "replace (c # cs) old new =
     (if old = [] then new @ c # replace cs old new
      else if take (length old) (c # cs) = old
      then new @ replace (drop (length old) (c # cs)) old new
      else c # replace cs old new)"

text \<open>
  \<^verbatim>\<open>songs_table = df.select(['song_id', 'title', 'artist_id', 'year', 'duration'])\<close>
\<close>

definition songs_table :: "song_data list \<Rightarrow> error + row list" where
  "songs_table df =
     selectExpr song_data_column [''song_id'', ''title'', ''artist_id'', ''year'', ''duration''] df"

text \<open>
  \<^verbatim>\<open>columns = ['artist_name', 'artist_location', 'artist_latitude', 'artist_longitude']\<close>
  \<^verbatim>\<open>columns = [col + ' as ' + col.replace('artist_', '') for col in columns]\<close>
  \<^verbatim>\<open>artists_table = df.selectExpr('artist_id', *columns)\<close>
\<close>

definition columns :: "string list" where
  "columns =
     map (\<lambda>col. col @ '' as '' @ replace col ''artist_'' '''')
       [''artist_name'', ''artist_location'', ''artist_latitude'', ''artist_longitude'']"

definition artists_table :: "song_data list \<Rightarrow> error + row list" where
  "artists_table df = selectExpr song_data_column (''artist_id'' # columns) df"

subsection \<open>Timestamps and Spark's calendar functions\<close>

text \<open>
  A \<^verbatim>\<open>TimestampType\<close> value without its zone: the wall-clock reading, in milliseconds
  since 1970-01-01 00:00:00 on that clock. Spark's \<^verbatim>\<open>hour\<close>, \<^verbatim>\<open>dayofmonth\<close>,
  \<^verbatim>\<open>weekofyear\<close>, \<^verbatim>\<open>month\<close>, \<^verbatim>\<open>year\<close> and \<^verbatim>\<open>dayofweek\<close> read the fields of that wall
  clock in the proleptic Gregorian calendar.
\<close>

type_synonym timestamp = int

definition epoch_day :: "timestamp \<Rightarrow> int" where
  "epoch_day t = t div 86400000"

definition hour :: "timestamp \<Rightarrow> int" where
  "hour t = (t mod 86400000) div 3600000"

text \<open>
  The calendar counts from 0000-03-01, so that a leap day is the last day of its year:
  eras of 400 years (146097 days), centuries (36524 days, the fourth one a day longer),
  cycles of four years (1461 days) and years (365 days, the fourth one a day longer).
\<close>

definition march_year :: "int \<Rightarrow> int" where
  "march_year z =
     (let doe = (z + 719468) mod 146097;
          c = min 3 (doe div 36524);
          r = doe - c * 36524
      in ((z + 719468) div 146097) * 400 + c * 100 + (r div 1461) * 4 + min 3 ((r mod 1461) div 365))"

definition march_day :: "int \<Rightarrow> int" where
  "march_day z =
     (let doe = (z + 719468) mod 146097;
          r = doe - min 3 (doe div 36524) * 36524
      in r mod 1461 - min 3 ((r mod 1461) div 365) * 365)"

definition month_of_day :: "int \<Rightarrow> int" where
  "month_of_day z =
     (let mp = (5 * march_day z + 2) div 153 in if mp < 10 then mp + 3 else mp - 9)"

definition year_of_day :: "int \<Rightarrow> int" where
  "year_of_day z = (if month_of_day z \<le> 2 then march_year z + 1 else march_year z)"

definition day_of_month :: "int \<Rightarrow> int" where
  "day_of_month z =
     (let mp = (5 * march_day z + 2) div 153 in march_day z - (153 * mp + 2) div 5 + 1)"

definition leap_year :: "int \<Rightarrow> bool" where
  "leap_year y = (y mod 4 = 0 \<and> (y mod 100 \<noteq> 0 \<or> y mod 400 = 0))"

text \<open>The day of the year, 1 for 1 January; 1 March is day 0 of the March count.\<close>

definition day_of_year :: "int \<Rightarrow> int" where
  "day_of_year z =
     (if month_of_day z \<le> 2 then march_day z - 305
      else march_day z + 60 + (if leap_year (year_of_day z) then 1 else 0))"

text \<open>ISO 8601: weeks start on Monday, week 1 is the week of the year's first Thursday.\<close>

definition iso_weekday :: "int \<Rightarrow> int" where
  "iso_weekday z = (z + 3) mod 7 + 1"

definition weeks_in_year :: "int \<Rightarrow> int" where
  "weeks_in_year y =
     (let p = (\<lambda>y. (y + y div 4 - y div 100 + y div 400) mod 7)
      in if p y = 4 \<or> p (y - 1) = 3 then 53 else 52)"

definition iso_week :: "int \<Rightarrow> int" where
  "iso_week z =
     (let w = (day_of_year z - iso_weekday z + 10) div 7
      in if w < 1 then weeks_in_year (year_of_day z - 1)
         else if w > weeks_in_year (year_of_day z) then 1
         else w)"

definition year :: "timestamp \<Rightarrow> int" where
  "year t = year_of_day (epoch_day t)"

definition month :: "timestamp \<Rightarrow> int" where
  "month t = month_of_day (epoch_day t)"

definition dayofmonth :: "timestamp \<Rightarrow> int" where
  "dayofmonth t = day_of_month (epoch_day t)"

definition weekofyear :: "timestamp \<Rightarrow> int" where
  "weekofyear t = iso_week (epoch_day t)"

text \<open>\<^verbatim>\<open>dayofweek\<close>: 1 is Sunday, 7 is Saturday; 1970-01-01 was a Thursday.\<close>

definition dayofweek :: "timestamp \<Rightarrow> int" where
  "dayofweek t = (epoch_day t + 4) mod 7 + 1"

subsection \<open>The activity log: \<^verbatim>\<open>process_log_data\<close>\<close>

text \<open>One row of \<^verbatim>\<open>spark.read.json(log_data)\<close>; the SQL query calls this frame \<^verbatim>\<open>e\<close>.\<close>

record log_data =
  e_userId :: "string option"
  e_firstName :: "string option"
  e_lastName :: "string option"
  e_gender :: "string option"
  e_level :: "string option"
  e_ts :: "int option"
  e_page :: "string option"
  e_song :: "string option"
  e_artist :: "string option"
  e_length :: "real option"
  e_sessionId :: "int option"
  e_location :: "string option"
  e_userAgent :: "string option"

text \<open>
  \<^verbatim>\<open>df = df.withColumn('user_id', df.userId.cast(IntegerType()))\<close>

  A column added by \<^verbatim>\<open>withColumn\<close> extends the record. Spark's cast of a string to an
  integer is a parameter, \<open>cast\<close>: it yields \<open>None\<close> (\<^verbatim>\<open>NULL\<close>) for a string that is not
  an integer, and the cast of \<^verbatim>\<open>NULL\<close> is \<^verbatim>\<open>NULL\<close>.
\<close>

record event = log_data +
  e_user_id :: "int option"

definition with_user_id :: "(string \<Rightarrow> int option) \<Rightarrow> log_data list \<Rightarrow> event list" where
  "with_user_id cast df =
     map (\<lambda>r. log_data.extend r (event.fields (Option.bind (e_userId r) cast))) df"

text \<open>
  \<^verbatim>\<open>df = df.where(df.page == 'NextSong')\<close>

  A comparison with \<^verbatim>\<open>NULL\<close> is not true, so a row without a page is filtered out.
\<close>

definition next_song :: "('a log_data_scheme) list \<Rightarrow> ('a log_data_scheme) list" where
  "next_song df = filter (\<lambda>r. e_page r = Some ''NextSong'') df"

definition events :: "(string \<Rightarrow> int option) \<Rightarrow> log_data list \<Rightarrow> event list" where
  "events cast log_df = next_song (with_user_id cast log_df)"

subsubsection \<open>The users table\<close>

record users_row =
  users_user_id :: "int option"
  users_first_name :: "string option"
  users_last_name :: "string option"
  users_gender :: "string option"
  users_level :: "string option"

record users_ts_row = users_row +
  users_ts :: "int option"

record users_numbered_row = users_ts_row +
  users_row_number :: nat

text \<open>
  \<^verbatim>\<open>col('ts').desc()\<close>: descending, \<^verbatim>\<open>NULL\<close> last. In the order on \<open>option\<close>, \<open>None\<close> is
  the least element, so this is the reverse of the ascending sort. Spark leaves the
  order of rows with equal keys open.
\<close>

definition order_by_desc :: "('r \<Rightarrow> 'k::linorder) \<Rightarrow> 'r list \<Rightarrow> 'r list" where
  "order_by_desc key rows = rev (sort_key key rows)"

text \<open>
  \<^verbatim>\<open>row_number().over(Window.partitionBy(key).orderBy(...))\<close>: the rows with the same key
  (\<^verbatim>\<open>NULL\<close> is a key like any other) form a partition, each partition is ordered, and a row
  gets its position in its partition, counted from 1.
\<close>

definition row_number_over ::
  "('r \<Rightarrow> 'k) \<Rightarrow> ('r list \<Rightarrow> 'r list) \<Rightarrow> 'r list \<Rightarrow> ('r \<times> nat) list" where
  "row_number_over partition_key order_by df =
     concat (map (\<lambda>k. let part = order_by (filter (\<lambda>r. partition_key r = k) df)
                       in zip part [1 ..< Suc (length part)])
              (remdups (map partition_key df)))"

text \<open>
  \<^verbatim>\<open>users_table = df.selectExpr(['user_id', 'firstName as first_name', 'lastName as last_name', 'gender', 'level', 'ts'])\<close>
  \<^verbatim>\<open>users_window = Window.partitionBy('user_id').orderBy(col('ts').desc())\<close>
  \<^verbatim>\<open>users_table = users_table.withColumn('row_number', row_number().over(users_window))\<close>
  \<^verbatim>\<open>users_table = users_table.where(users_table.row_number == 1).drop('ts', 'row_number')\<close>
\<close>

definition users_select :: "event \<Rightarrow> users_ts_row" where
  "users_select r =
     \<lparr>users_user_id = e_user_id r, users_first_name = e_firstName r,
      users_last_name = e_lastName r, users_gender = e_gender r, users_level = e_level r,
      users_ts = e_ts r\<rparr>"

definition users_table :: "(string \<Rightarrow> int option) \<Rightarrow> log_data list \<Rightarrow> users_row list" where
  "users_table cast log_df =
     (let selected = map users_select (events cast log_df);
          numbered = map (\<lambda>(r, n). users_ts_row.extend r (users_numbered_row.fields n))
                       (row_number_over users_user_id (order_by_desc users_ts) selected)
      in map users_row.truncate (filter (\<lambda>r. users_row_number r = 1) numbered))"

subsubsection \<open>The time table\<close>

text \<open>
  \<^verbatim>\<open>get_timestamp = udf(lambda ts: datetime.fromtimestamp(ts/1000).isoformat())\<close>
  \<^verbatim>\<open>df = df.withColumn('start_time', get_timestamp('ts').cast(TimestampType()))\<close>

  \<^verbatim>\<open>fromtimestamp\<close> gives the local wall-clock time. The local zone is a parameter,
  \<open>utcoffset\<close>: the number of seconds that local time is ahead of UTC at a given epoch
  second. The ISO string is then read back by Spark as a wall-clock time in the session
  zone, so \<open>start_time\<close> holds that wall-clock reading. On \<^verbatim>\<open>None\<close> the division raises
  \<^verbatim>\<open>TypeError\<close>; a time outside the years 1 to 9999 of \<^verbatim>\<open>datetime\<close> raises
  \<^verbatim>\<open>ValueError\<close>. Either one makes the Spark job that evaluates the column fail.
\<close>

definition get_timestamp :: "(int \<Rightarrow> int) \<Rightarrow> int option \<Rightarrow> error + timestamp" where
  "get_timestamp utcoffset ts =
     (case ts of
        None \<Rightarrow> Inl TypeError
      | Some t \<Rightarrow>
          (let local = t + 1000 * utcoffset (t div 1000)
           in if 1 \<le> year local \<and> year local \<le> 9999 then Inr local else Inl ValueError))"

record timed_event = event +
  e_start_time :: timestamp

fun with_start_time :: "(int \<Rightarrow> int) \<Rightarrow> event list \<Rightarrow> error + timed_event list" where
  "with_start_time utcoffset [] = Inr []"
| "with_start_time utcoffset (r # df) =
     (case get_timestamp utcoffset (e_ts r) of
        Inl err \<Rightarrow> Inl err
      | Inr t \<Rightarrow>
          (case with_start_time utcoffset df of
             Inl err \<Rightarrow> Inl err
           | Inr df' \<Rightarrow> Inr (event.extend r (timed_event.fields t) # df')))"

record time_row =
  time_start_time :: timestamp
  time_hour :: int
  time_day :: int
  time_week :: int
  time_month :: int
  time_year :: int
  time_weekday :: int

text \<open>
  \<^verbatim>\<open>time_table = df.select('start_time')\<close>, then one \<^verbatim>\<open>withColumn\<close> for each of
  \<^verbatim>\<open>hour\<close>, \<^verbatim>\<open>day\<close>, \<^verbatim>\<open>week\<close>, \<^verbatim>\<open>month\<close>, \<^verbatim>\<open>year\<close> and \<^verbatim>\<open>weekday\<close>, each computed from the
  column \<^verbatim>\<open>start_time\<close>.
\<close>

definition time_columns :: "timestamp \<Rightarrow> time_row" where
  "time_columns start_time =
     \<lparr>time_start_time = start_time, time_hour = hour start_time,
      time_day = dayofmonth start_time, time_week = weekofyear start_time,
      time_month = month start_time, time_year = year start_time,
      time_weekday = dayofweek start_time\<rparr>"

definition time_table ::
  "(string \<Rightarrow> int option) \<Rightarrow> (int \<Rightarrow> int) \<Rightarrow> log_data list \<Rightarrow> error + time_row list" where
  "time_table cast utcoffset log_df =
     (case with_start_time utcoffset (events cast log_df) of
        Inl err \<Rightarrow> Inl err
      | Inr df \<Rightarrow> Inr (map (\<lambda>r. time_columns (e_start_time r)) df))"

subsubsection \<open>The songplays table\<close>

text \<open>
  \<^verbatim>\<open>df = df.orderBy('ts')\<close>: ascending, \<^verbatim>\<open>NULL\<close> first. The sorted frame is range
  partitioned: it is cut into consecutive runs, one per partition. How many rows each
  partition gets is the engine's choice, here the parameter \<open>sizes\<close>; the rows left over
  go to a last partition.
\<close>

definition orderBy :: "('r \<Rightarrow> 'k::linorder) \<Rightarrow> 'r list \<Rightarrow> 'r list" where
  "orderBy key df = sort_key key df"

fun range_partitions :: "nat list \<Rightarrow> 'r list \<Rightarrow> 'r list list" where
  "range_partitions [] df = [df]"
| "range_partitions (n # sizes) df = take n df # range_partitions sizes (drop n df)"

text \<open>
  \<^verbatim>\<open>monotonically_increasing_id()\<close>: a 64-bit signed integer with the partition index in
  the upper 31 bits and the position of the row in its partition in the lower 33 bits.
\<close>

definition to_long :: "int \<Rightarrow> int" where
  "to_long x = (x + 2 ^ 63) mod 2 ^ 64 - 2 ^ 63"

definition monotonically_increasing_id :: "nat \<Rightarrow> nat \<Rightarrow> int" where
  "monotonically_increasing_id partition_index n = to_long (int partition_index * 2 ^ 33 + int n)"

record play_event = timed_event +
  e_songplay_id :: int

definition with_songplay_id :: "timed_event list list \<Rightarrow> play_event list" where
  "with_songplay_id partitions =
     concat (map (\<lambda>(p, part).
                map (\<lambda>(n, r). timed_event.extend r
                       (play_event.fields (monotonically_increasing_id p n)))
                  (enumerate 0 part))
              (enumerate 0 partitions))"

text \<open>
  SQL's three-valued logic: a comparison or an arithmetic operation with \<^verbatim>\<open>NULL\<close> is
  \<^verbatim>\<open>NULL\<close>, and \<^verbatim>\<open>AND\<close> is false as soon as one side is false.
\<close>

definition sql_eq :: "'a option \<Rightarrow> 'a option \<Rightarrow> bool option" where
  "sql_eq x y = (case (x, y) of (Some a, Some b) \<Rightarrow> Some (a = b) | _ \<Rightarrow> None)"

definition sql_less :: "real option \<Rightarrow> real option \<Rightarrow> bool option" where
  "sql_less x y = (case (x, y) of (Some a, Some b) \<Rightarrow> Some (a < b) | _ \<Rightarrow> None)"

definition sql_minus :: "real option \<Rightarrow> real option \<Rightarrow> real option" where
  "sql_minus x y = (case (x, y) of (Some a, Some b) \<Rightarrow> Some (a - b) | _ \<Rightarrow> None)"

definition sql_abs :: "real option \<Rightarrow> real option" where
  "sql_abs x = map_option abs x"

definition sql_and :: "bool option \<Rightarrow> bool option \<Rightarrow> bool option" where
  "sql_and x y =
     (if x = Some False \<or> y = Some False then Some False
      else if x = Some True \<and> y = Some True then Some True
      else None)"

text \<open>
  \<^verbatim>\<open>e.song = s.title AND e.artist = s.artist_name AND ABS(e.length - s.duration) < 2\<close>
\<close>

definition join_condition :: "'a log_data_scheme \<Rightarrow> song_data \<Rightarrow> bool option" where
  "join_condition e s =
     sql_and
       (sql_and (sql_eq (e_song e) (s_title s)) (sql_eq (e_artist e) (s_artist_name s)))
       (sql_less (sql_abs (sql_minus (e_length e) (s_duration s))) (Some 2))"

text \<open>
  \<^verbatim>\<open>FROM events e LEFT JOIN songs s ON ...\<close>: a left row is paired with every right row
  for which the condition is true, and with \<^verbatim>\<open>NULL\<close>s if there is none.
\<close>

definition left_join :: "('l \<Rightarrow> 'r \<Rightarrow> bool option) \<Rightarrow> 'l list \<Rightarrow> 'r list \<Rightarrow> ('l \<times> 'r option) list" where
  "left_join on ls rs =
     concat (map (\<lambda>l. case filter (\<lambda>r. on l r = Some True) rs of
                         [] \<Rightarrow> [(l, None)]
                       | ms \<Rightarrow> map (\<lambda>r. (l, Some r)) ms) ls)"

record songplays_row =
  songplays_songplay_id :: int
  songplays_start_time :: timestamp
  songplays_user_id :: "int option"
  songplays_level :: "string option"
  songplays_song_id :: "string option"
  songplays_artist_id :: "string option"
  songplays_session_id :: "int option"
  songplays_location :: "string option"
  songplays_user_agent :: "string option"
  songplays_year :: int
  songplays_month :: int

text \<open>The \<^verbatim>\<open>SELECT\<close> list of the query.\<close>

definition songplays_select :: "play_event \<times> song_data option \<Rightarrow> songplays_row" where
  "songplays_select es =
     (case es of (e, s) \<Rightarrow>
        \<lparr>songplays_songplay_id = e_songplay_id e,
         songplays_start_time = e_start_time e,
         songplays_user_id = e_user_id e,
         songplays_level = e_level e,
         songplays_song_id = Option.bind s s_song_id,
         songplays_artist_id = Option.bind s s_artist_id,
         songplays_session_id = e_sessionId e,
         songplays_location = e_location e,
         songplays_user_agent = e_userAgent e,
         songplays_year = year (e_start_time e),
         songplays_month = month (e_start_time e)\<rparr>)"

text \<open>
  The frame \<^verbatim>\<open>events\<close> of the query: the filtered log with \<^verbatim>\<open>start_time\<close>, sorted by
  \<^verbatim>\<open>ts\<close>, with \<^verbatim>\<open>songplay_id\<close>.
\<close>

definition play_events ::
  "(string \<Rightarrow> int option) \<Rightarrow> (int \<Rightarrow> int) \<Rightarrow> nat list \<Rightarrow> log_data list \<Rightarrow> error + play_event list" where
  "play_events cast utcoffset sizes log_df =
     (case with_start_time utcoffset (events cast log_df) of
        Inl err \<Rightarrow> Inl err
      | Inr df \<Rightarrow> Inr (with_songplay_id (range_partitions sizes (orderBy e_ts df))))"

text \<open>The joined frame, each row still with the rows of \<^verbatim>\<open>e\<close> and \<^verbatim>\<open>s\<close> it was made from.\<close>

definition songplays_join ::
  "(string \<Rightarrow> int option) \<Rightarrow> (int \<Rightarrow> int) \<Rightarrow> nat list \<Rightarrow> log_data list \<Rightarrow> song_data list
     \<Rightarrow> error + (play_event \<times> song_data option) list" where
  "songplays_join cast utcoffset sizes log_df song_df =
     (case play_events cast utcoffset sizes log_df of
        Inl err \<Rightarrow> Inl err
      | Inr df \<Rightarrow> Inr (left_join join_condition df song_df))"

definition songplays_table ::
  "(string \<Rightarrow> int option) \<Rightarrow> (int \<Rightarrow> int) \<Rightarrow> nat list \<Rightarrow> log_data list \<Rightarrow> song_data list
     \<Rightarrow> error + songplays_row list" where
  "songplays_table cast utcoffset sizes log_df song_df =
     (case songplays_join cast utcoffset sizes log_df song_df of
        Inl err \<Rightarrow> Inl err
      | Inr joined \<Rightarrow> Inr (map songplays_select joined))"

subsection \<open>Writing the tables\<close>

text \<open>
  A Parquet data set is a list of partition directories, each with the value of the
  partition columns and the rows written there; a data set that is not partitioned has
  one directory. \<^verbatim>\<open>DataFrameWriter.parquet(path, partitionBy=...)\<close> is called without a
  \<^verbatim>\<open>mode\<close>, and Spark's default save mode is \<^verbatim>\<open>errorifexists\<close>: the write raises if the
  path exists and writes nothing.
\<close>

type_synonym ('k, 'r) parquet = "('k \<times> 'r list) list"

definition partitionBy :: "('r \<Rightarrow> 'k) \<Rightarrow> 'r list \<Rightarrow> ('k, 'r) parquet" where
  "partitionBy key rows =
     map (\<lambda>k. (k, filter (\<lambda>r. key r = k) rows)) (remdups (map key rows))"

definition write_parquet ::
  "string \<Rightarrow> ('r \<Rightarrow> 'k) \<Rightarrow> 'r list \<Rightarrow> ('k, 'r) parquet option \<Rightarrow> error + ('k, 'r) parquet" where
  "write_parquet path key rows existing =
     (case existing of
        Some old \<Rightarrow> Inl (PathAlreadyExists path)
      | None \<Rightarrow> Inr (partitionBy key rows))"

text \<open>
  The five paths under \<^verbatim>\<open>output_data\<close>; \<open>None\<close> is a path that does not exist.
\<close>

record warehouse =
  songs_path :: "(val option \<times> val option, row) parquet option"
  artists_path :: "(unit, row) parquet option"
  users_path :: "(unit, users_row) parquet option"
  time_path :: "(int \<times> int, time_row) parquet option"
  songplays_path :: "(int \<times> int, songplays_row) parquet option"

text \<open>
  A run returns the exception that ended it, if any, and the state it leaves behind:
  tables written before the exception stay.
\<close>

definition process_song_data :: "song_data list \<Rightarrow> warehouse \<Rightarrow> error option \<times> warehouse" where
  "process_song_data df w =
     (case songs_table df of
        Inl err \<Rightarrow> (Some err, w)
      | Inr songs \<Rightarrow>
     (case write_parquet ''songs'' (\<lambda>r. (map_of r ''year'', map_of r ''artist_id'')) songs
             (songs_path w) of
        Inl err \<Rightarrow> (Some err, w)
      | Inr written_songs \<Rightarrow>
     (case artists_table df of
        Inl err \<Rightarrow> (Some err, w\<lparr>songs_path := Some written_songs\<rparr>)
      | Inr artists \<Rightarrow>
     (case write_parquet ''artists'' (\<lambda>r. ()) artists (artists_path w) of
        Inl err \<Rightarrow> (Some err, w\<lparr>songs_path := Some written_songs\<rparr>)
      | Inr written_artists \<Rightarrow>
          (None, w\<lparr>songs_path := Some written_songs, artists_path := Some written_artists\<rparr>)))))"

definition process_log_data ::
  "(string \<Rightarrow> int option) \<Rightarrow> (int \<Rightarrow> int) \<Rightarrow> nat list \<Rightarrow> log_data list \<Rightarrow> song_data list
     \<Rightarrow> warehouse \<Rightarrow> error option \<times> warehouse" where
  "process_log_data cast utcoffset sizes log_df song_df w =
     (case write_parquet ''users'' (\<lambda>r. ()) (users_table cast log_df) (users_path w) of
        Inl err \<Rightarrow> (Some err, w)
      | Inr written_users \<Rightarrow>
     (case time_table cast utcoffset log_df of
        Inl err \<Rightarrow> (Some err, w\<lparr>users_path := Some written_users\<rparr>)
      | Inr time_rows \<Rightarrow>
     (case write_parquet ''time'' (\<lambda>r. (time_year r, time_month r)) time_rows (time_path w) of
        Inl err \<Rightarrow> (Some err, w\<lparr>users_path := Some written_users\<rparr>)
      | Inr written_time \<Rightarrow>
     (case songplays_table cast utcoffset sizes log_df song_df of
        Inl err \<Rightarrow> (Some err, w\<lparr>users_path := Some written_users, time_path := Some written_time\<rparr>)
      | Inr songplays \<Rightarrow>
     (case write_parquet ''songplays'' (\<lambda>r. (songplays_year r, songplays_month r)) songplays
             (songplays_path w) of
        Inl err \<Rightarrow> (Some err, w\<lparr>users_path := Some written_users, time_path := Some written_time\<rparr>)
      | Inr written_songplays \<Rightarrow>
          (None, w\<lparr>users_path := Some written_users, time_path := Some written_time,
                   songplays_path := Some written_songplays\<rparr>))))))"

text \<open>\<^verbatim>\<open>main\<close>: both steps in turn; an exception in the first ends the run.\<close>

definition main ::
  "(string \<Rightarrow> int option) \<Rightarrow> (int \<Rightarrow> int) \<Rightarrow> nat list \<Rightarrow> song_data list \<Rightarrow> log_data list
     \<Rightarrow> warehouse \<Rightarrow> error option \<times> warehouse" where
  "main cast utcoffset sizes song_df log_df w =
     (case process_song_data song_df w of
        (Some err, w') \<Rightarrow> (Some err, w')
      | (None, w') \<Rightarrow> process_log_data cast utcoffset sizes log_df song_df w')"

subsection \<open>Example inputs\<close>

text \<open>
  A catalog entry, the same entry with a longer duration, a second entry for the same
  title and artist, and an entry without \<^verbatim>\<open>song_id\<close>.
\<close>

definition song_a :: song_data where
  "song_a =
     \<lparr>s_song_id = Some ''SOAAA'', s_title = Some ''Song A'', s_artist_id = Some ''ARAAA'',
      s_artist_name = Some ''Artist A'', s_artist_location = Some ''Madrid'',
      s_artist_latitude = Some 40.4, s_artist_longitude = None,
      s_year = Some 2001, s_duration = Some 211.9\<rparr>"

definition song_a_long :: song_data where
  "song_a_long = song_a\<lparr>s_duration := Some 213.0\<rparr>"

definition song_a_live :: song_data where
  "song_a_live = song_a\<lparr>s_song_id := Some ''SOBBB'', s_year := Some 2005, s_duration := Some 210.0\<rparr>"

definition song_without_id :: song_data where
  "song_without_id = song_a\<lparr>s_song_id := None\<rparr>"

text \<open>
  Two plays of user 7, first on the free and then on the paid level; a page view; a play
  whose \<^verbatim>\<open>userId\<close> is the empty string.
\<close>

definition play_free :: log_data where
  "play_free =
     \<lparr>e_userId = Some ''7'', e_firstName = Some ''Ana'', e_lastName = Some ''Ruiz'',
      e_gender = Some ''F'', e_level = Some ''free'', e_ts = Some 1000,
      e_page = Some ''NextSong'', e_song = Some ''Song A'', e_artist = Some ''Artist A'',
      e_length = Some 210.5, e_sessionId = Some 42, e_location = Some ''Madrid'',
      e_userAgent = Some ''Mozilla''\<rparr>"

definition play_paid :: log_data where
  "play_paid = play_free\<lparr>e_level := Some ''paid'', e_ts := Some 2000\<rparr>"

definition page_view :: log_data where
  "page_view = play_free\<lparr>e_page := Some ''PageView'', e_ts := Some 1500\<rparr>"

definition play_blank_user :: log_data where
  "play_blank_user = play_free\<lparr>e_userId := Some '''', e_ts := Some 3000\<rparr>"

text \<open>
  A cast for the examples: a string of decimal digits that denotes a 32-bit integer is cast
  to that integer, anything else to \<^verbatim>\<open>NULL\<close>. Spark's cast does the same on digit strings
  and on the empty string.
\<close>

fun decimal :: "int \<Rightarrow> string \<Rightarrow> int option" where
  "decimal acc [] = Some acc"
| "decimal acc (c # cs) =
     (if c \<in> set ''0123456789'' then decimal (10 * acc + (of_char c - 48)) cs else None)"

definition cast_decimal :: "string \<Rightarrow> int option" where
  "cast_decimal s =
     (if s = [] then None
      else case decimal 0 s of None \<Rightarrow> None | Some n \<Rightarrow> if n < 2 ^ 31 then Some n else None)"

text \<open>The state before the first run: none of the five paths exists.\<close>

definition empty_warehouse :: warehouse where
  "empty_warehouse =
     \<lparr>songs_path = None, artists_path = None, users_path = None, time_path = None,
      songplays_path = None\<rparr>"

section \<open>Properties\<close>

subsection \<open>Select expressions of the catalog tables\<close>

lemma columns_eval:
  "columns = [''artist_name as name'', ''artist_location as location'',
     ''artist_latitude as latitude'', ''artist_longitude as longitude'']"
  by (simp add: columns_def)

lemma parse_expr_columns:
  "map parse_expr (''artist_id'' # columns) =
     [(''artist_id'', ''artist_id''), (''artist_name'', ''name''),
      (''artist_location'', ''location''), (''artist_latitude'', ''latitude''),
      (''artist_longitude'', ''longitude'')]"
  by (simp add: columns_eval parse_expr_def)

lemma songs_table_rows:
  "songs_table df =
     Inr (map (\<lambda>r. [(''song_id'', StringVal (s_song_id r)), (''title'', StringVal (s_title r)),
                     (''artist_id'', StringVal (s_artist_id r)), (''year'', LongVal (s_year r)),
                     (''duration'', DoubleVal (s_duration r))]) df)"
  by (simp add: songs_table_def selectExpr_def song_data_column_def parse_expr_def)

lemma artists_table_rows:
  "artists_table df =
     Inr (map (\<lambda>r. [(''artist_id'', StringVal (s_artist_id r)),
                     (''name'', StringVal (s_artist_name r)),
                     (''location'', StringVal (s_artist_location r)),
                     (''latitude'', DoubleVal (s_artist_latitude r)),
                     (''longitude'', DoubleVal (s_artist_longitude r))]) df)"
  by (simp add: artists_table_def selectExpr_def song_data_column_def parse_expr_def
      columns_eval)

subsection \<open>The artists table\<close>

text \<open>
  C10. The artists table has exactly one row per catalog record, in which the columns
  \<^verbatim>\<open>artist_id\<close>, \<^verbatim>\<open>name\<close>, \<^verbatim>\<open>location\<close>, \<^verbatim>\<open>latitude\<close> and \<^verbatim>\<open>longitude\<close> hold that record's
  \<^verbatim>\<open>artist_id\<close>, \<^verbatim>\<open>artist_name\<close>, \<^verbatim>\<open>artist_location\<close>, \<^verbatim>\<open>artist_latitude\<close> and
  \<^verbatim>\<open>artist_longitude\<close>. Nothing is deduplicated: an \<^verbatim>\<open>artist_id\<close> that occurs in \<open>k\<close> catalog
  records occurs in \<open>k\<close> rows of the table, each with the values of its own record.
\<close>

theorem artists_one_row_per_catalog_record:
  "\<exists>rows. artists_table df = Inr rows
     \<and> rows = map (\<lambda>r. [(''artist_id'', StringVal (s_artist_id r)),
                       (''name'', StringVal (s_artist_name r)),
                       (''location'', StringVal (s_artist_location r)),
                       (''latitude'', DoubleVal (s_artist_latitude r)),
                       (''longitude'', DoubleVal (s_artist_longitude r))]) df
     \<and> length rows = length df
     \<and> (\<forall>a. length (filter (\<lambda>row. map_of row ''artist_id'' = Some (StringVal a)) rows)
            = length (filter (\<lambda>r. s_artist_id r = a) df))"
  by (simp add: artists_table_rows comp_def)

text \<open>
  The two catalog entries of artist \<^verbatim>\<open>ARAAA\<close> give two rows of the artists table.
\<close>

theorem artists_one_row_per_catalog_record_witness:
  "\<exists>rows. artists_table [song_a, song_a_live] = Inr rows
     \<and> length rows = 2
     \<and> length (filter (\<lambda>row. map_of row ''artist_id'' = Some (StringVal (Some ''ARAAA''))) rows) = 2"
  using artists_one_row_per_catalog_record [of "[song_a, song_a_live]"]
  by (auto simp: song_a_def song_a_live_def)

subsection \<open>Catalog records without a song id\<close>

lemma process_song_data_fresh:
  assumes "songs_path w = None" and "artists_path w = None"
  shows "\<exists>songs artists.
           songs_table df = Inr songs \<and> artists_table df = Inr artists
         \<and> process_song_data df w =
             (None, w\<lparr>songs_path :=
                        Some (partitionBy (\<lambda>r. (map_of r ''year'', map_of r ''artist_id'')) songs),
                      artists_path := Some (partitionBy (\<lambda>r. ()) artists)\<rparr>)"
  using assms
  by (simp add: process_song_data_def write_parquet_def songs_table_rows artists_table_rows)

text \<open>
  C7, as stated, fails. A catalog of two records, the second without \<^verbatim>\<open>song_id\<close>: the songs
  table and the artists table both have two rows, and the second row of the songs table
  has \<^verbatim>\<open>NULL\<close> for \<^verbatim>\<open>song_id\<close>.
\<close>

theorem catalog_record_without_song_id_counterexample:
  "s_song_id song_without_id = None
   \<and> songs_table [song_a, song_without_id] =
       Inr [[(''song_id'', StringVal (Some ''SOAAA'')), (''title'', StringVal (Some ''Song A'')),
             (''artist_id'', StringVal (Some ''ARAAA'')), (''year'', LongVal (Some 2001)),
             (''duration'', DoubleVal (Some 211.9))],
            [(''song_id'', StringVal None), (''title'', StringVal (Some ''Song A'')),
             (''artist_id'', StringVal (Some ''ARAAA'')), (''year'', LongVal (Some 2001)),
             (''duration'', DoubleVal (Some 211.9))]]
   \<and> artists_table [song_a, song_without_id] =
       Inr [[(''artist_id'', StringVal (Some ''ARAAA'')), (''name'', StringVal (Some ''Artist A'')),
             (''location'', StringVal (Some ''Madrid'')), (''latitude'', DoubleVal (Some 40.4)),
             (''longitude'', DoubleVal None)],
            [(''artist_id'', StringVal (Some ''ARAAA'')), (''name'', StringVal (Some ''Artist A'')),
             (''location'', StringVal (Some ''Madrid'')), (''latitude'', DoubleVal (Some 40.4)),
             (''longitude'', DoubleVal None)]]"
  by (simp add: songs_table_rows artists_table_rows song_a_def song_without_id_def)

text \<open>
  C7, amended. A catalog record without \<^verbatim>\<open>song_id\<close> is kept: both tables have one row per
  catalog record, the record's row in the songs table has \<^verbatim>\<open>NULL\<close> for \<^verbatim>\<open>song_id\<close> and its
  other columns as they are, and its row is in the artists table. No exception is raised:
  on paths that do not exist yet \<^verbatim>\<open>process_song_data\<close> writes both tables.
\<close>

theorem catalog_record_without_song_id_kept:
  assumes "s_song_id r = None" and "r \<in> set df"
    and "songs_path w = None" and "artists_path w = None"
  shows "\<exists>songs artists w'.
           songs_table df = Inr songs \<and> artists_table df = Inr artists
         \<and> length songs = length df \<and> length artists = length df
         \<and> [(''song_id'', StringVal None), (''title'', StringVal (s_title r)),
             (''artist_id'', StringVal (s_artist_id r)), (''year'', LongVal (s_year r)),
             (''duration'', DoubleVal (s_duration r))] \<in> set songs
         \<and> [(''artist_id'', StringVal (s_artist_id r)), (''name'', StringVal (s_artist_name r)),
             (''location'', StringVal (s_artist_location r)),
             (''latitude'', DoubleVal (s_artist_latitude r)),
             (''longitude'', DoubleVal (s_artist_longitude r))] \<in> set artists
         \<and> process_song_data df w = (None, w')
         \<and> songs_path w' = Some (partitionBy (\<lambda>r. (map_of r ''year'', map_of r ''artist_id'')) songs)
         \<and> artists_path w' = Some (partitionBy (\<lambda>r. ()) artists)"
proof -
  let ?song = "\<lambda>r. [(''song_id'', StringVal (s_song_id r)), (''title'', StringVal (s_title r)),
                     (''artist_id'', StringVal (s_artist_id r)), (''year'', LongVal (s_year r)),
                     (''duration'', DoubleVal (s_duration r))]"
  let ?artist = "\<lambda>r. [(''artist_id'', StringVal (s_artist_id r)),
                     (''name'', StringVal (s_artist_name r)),
                     (''location'', StringVal (s_artist_location r)),
                     (''latitude'', DoubleVal (s_artist_latitude r)),
                     (''longitude'', DoubleVal (s_artist_longitude r))]"
  have "?song r \<in> set (map ?song df)" and "?artist r \<in> set (map ?artist df)"
    using assms(2) by (auto simp del: list.simps)
  then show ?thesis
    using assms(1) process_song_data_fresh [OF assms(3,4), of df]
    by (simp add: songs_table_rows artists_table_rows)
qed

theorem catalog_record_without_song_id_kept_witness:
  "\<exists>songs artists w'.
     songs_table [song_a, song_without_id] = Inr songs
   \<and> artists_table [song_a, song_without_id] = Inr artists
   \<and> length songs = 2 \<and> length artists = 2
   \<and> [(''song_id'', StringVal None), (''title'', StringVal (Some ''Song A'')),
       (''artist_id'', StringVal (Some ''ARAAA'')), (''year'', LongVal (Some 2001)),
       (''duration'', DoubleVal (Some 211.9))] \<in> set songs
   \<and> process_song_data [song_a, song_without_id] empty_warehouse = (None, w')"
  using catalog_record_without_song_id_kept
          [of song_without_id "[song_a, song_without_id]" empty_warehouse]
  by (auto simp: song_a_def song_without_id_def empty_warehouse_def)

end
